theory Spec2Isabelle
  imports Complex_Main "HOL-Library.AList" "HOL-Library.Log_Nat" "HOL-Library.Word"
begin

chapter \<open>The usage-accounting and cost-optimisation core\<close>

text \<open>
  A shallow embedding of four classes of the repository: \<open>BudgetEnforcer\<close>
  (src/usage/budget-enforcer.ts), \<open>CostOptimizedModelSelector\<close> (ai/optimizer/model-selector),
  \<open>UsageTracker\<close> (usage/tracker) and \<open>ResponseCache\<close> (ai/cache/response-cache).

  Conventions of the embedding.
  \<^item> A JavaScript \<open>number\<close> is an exact \<open>real\<close> (token counts and sizes, which the code only
    ever adds and compares, are \<open>int\<close>). The rounding of IEEE doubles is modelled in one
    place, the addition of costs in \<open>aggregateRecords\<close>, where a property compares sums
    taken in different orders; everywhere else arithmetic is exact.
  \<^item> An optional field \<open>x?: T\<close> is a \<open>T option\<close>; the truthiness test \<open>if (x)\<close> of an optional
    number is \<open>truthy\<close> below: present and not zero.
  \<^item> A \<open>Map\<close> and an object used as a dictionary are association lists in insertion order,
    read with \<open>map_of\<close> and written with \<open>AList.update\<close> (an existing key keeps its place, a
    new key goes last), as the iteration order of a \<open>Map\<close> is. Keys of an object that are
    members of \<open>Object.prototype\<close> are not modelled.
  \<^item> A rejected promise or a thrown exception is the \<open>Inl\<close> of a sum; \<open>async\<close> functions are
    run to completion, one after the other.
  \<^item> Nested object fields are flattened with their path as a prefix
    (\<open>profile.cost.input\<close> is \<open>cost_input\<close>).
\<close>

section \<open>Shared types\<close>

datatype js_error =
    Error string
  | TypeError
  | ENOENT
  | ENOTDIR
  | EISDIR

record ModelRef =
  ref_provider :: string
  ref_model :: string

definition truthy :: "real option \<Rightarrow> bool" where
  "truthy x = (case x of None \<Rightarrow> False | Some v \<Rightarrow> v \<noteq> 0)"

definition truthy_flag :: "bool option \<Rightarrow> bool" where
  "truthy_flag x = (case x of None \<Rightarrow> False | Some v \<Rightarrow> v)"

text \<open>
  \<open>a || b\<close> on optional numbers: the left operand when it is truthy, the right one otherwise.
\<close>

definition js_or :: "real option \<Rightarrow> real option \<Rightarrow> real option" where
  "js_or a b = (if truthy a then a else b)"

text \<open>
  The parts of \<open>OpenClawConfig\<close> that the code under study reads:
  \<open>config.models.providers\<close> (each provider with the ids of its \<open>models\<close>, in order),
  \<open>config.models.costOptimization.budgetLimits.daily\<close> and
  \<open>config.models.costOptimization.budgetControls.modelBudgets\<close> (each model with its optional
  \<open>costThreshold\<close>). A missing link of an optional chain \<open>a?.b?.c\<close> is \<open>None\<close>.
\<close>

record OpenClawConfig =
  providers :: "(string \<times> string list) list option"
  budgetLimits_daily :: "real option"
  modelBudgets :: "(string \<times> real option) list option"

text \<open>
  \<open>Array.prototype.toSorted(compare)\<close>: a stable sort by a comparator, written as the
  insertion sort that inserts from the right end. \<open>compare a b \<le> 0\<close> keeps \<open>a\<close> before \<open>b\<close>.
\<close>

fun insertSorted :: "('a \<Rightarrow> 'a \<Rightarrow> real) \<Rightarrow> 'a \<Rightarrow> 'a list \<Rightarrow> 'a list" where
  "insertSorted compare x [] = [x]"
| "insertSorted compare x (y # ys) =
     (if compare x y \<le> 0 then x # y # ys else y # insertSorted compare x ys)"

definition toSorted :: "('a \<Rightarrow> 'a \<Rightarrow> real) \<Rightarrow> 'a list \<Rightarrow> 'a list" where
  "toSorted compare xs = foldr (insertSorted compare) xs []"

section \<open>BudgetEnforcer\<close>

record CostControls =
  dailyBudget :: "real option"
  weeklyBudget :: "real option"
  monthlyBudget :: "real option"
  alerts_percentage :: "real option"

record BudgetCheck =
  allowed :: bool
  reason :: "string option"
  alternativeModel :: "ModelRef option"

text \<open>
  \<open>checkBudgetUsage\<close>: both \<open>if\<close> statements of the source have a body of comments only, so
  each branch leaves the result as it is.
\<close>

definition checkBudgetUsage ::
  "CostControls \<Rightarrow> string \<Rightarrow> real \<Rightarrow> OpenClawConfig \<Rightarrow> BudgetCheck" where
  "checkBudgetUsage this agentId estimatedCost config =
     (let result = \<lparr>allowed = True, reason = None, alternativeModel = None\<rparr>;
          daily = js_or (budgetLimits_daily config) (dailyBudget this);
          afterDaily = (if truthy daily then result else result);
          afterModels = (if modelBudgets config \<noteq> None then afterDaily else afterDaily)
      in afterModels)"

section \<open>CostOptimizedModelSelector\<close>

datatype TaskType = Text | Image | Code | Reasoning | Translation | Summary

datatype Level = Low | Medium | High

type_synonym TaskComplexity = Level
type_synonym UrgencyLevel = Level
type_synonym CostSensitivity = Level

record ModelSelectionCriteria =
  taskType :: TaskType
  complexity :: TaskComplexity
  urgency :: UrgencyLevel
  costSensitivity :: CostSensitivity
  budgetRemaining :: "real option"
  contextLength :: "real option"
  requiresReasoning :: "bool option"
  requiresMultimodal :: "bool option"

record ModelPerformanceProfile =
  profile_model :: string
  cost_input :: real
  cost_output :: real
  performance_speed :: real
  performance_quality :: real
  performance_reasoning :: real
  capabilities_text :: bool
  capabilities_image :: bool
  capabilities_reasoning :: bool
  capabilities_code :: bool
  capabilities_translation :: bool
  capabilities_summary :: bool
  contextWindow :: real

record ScoredModel =
  scored_model :: ModelRef
  score :: real

text \<open>\<open>profile.capabilities[criteria.taskType]\<close>.\<close>

fun capabilities :: "ModelPerformanceProfile \<Rightarrow> TaskType \<Rightarrow> bool" where
  "capabilities p Text = capabilities_text p"
| "capabilities p Image = capabilities_image p"
| "capabilities p Reasoning = capabilities_reasoning p"
| "capabilities p Code = capabilities_code p"
| "capabilities p Translation = capabilities_translation p"
| "capabilities p Summary = capabilities_summary p"

text \<open>
  A profile from its fields, in the order the source writes them: the model, \<open>cost\<close> (input,
  output), \<open>performance\<close> (speed, quality, reasoning), \<open>capabilities\<close> (text, image, reasoning,
  code, translation, summary) and \<open>contextWindow\<close>.
\<close>

fun mkProfile ::
  "string \<Rightarrow> real \<times> real \<Rightarrow> real \<times> real \<times> real
    \<Rightarrow> bool \<times> bool \<times> bool \<times> bool \<times> bool \<times> bool \<Rightarrow> real \<Rightarrow> ModelPerformanceProfile" where
  "mkProfile m (inputPrice, outputPrice) (speed, quality, reasoning)
       (canText, canImage, canReason, canCode, canTranslate, canSummarise) window =
     \<lparr>profile_model = m, cost_input = inputPrice, cost_output = outputPrice,
      performance_speed = speed, performance_quality = quality,
      performance_reasoning = reasoning,
      capabilities_text = canText, capabilities_image = canImage,
      capabilities_reasoning = canReason, capabilities_code = canCode,
      capabilities_translation = canTranslate, capabilities_summary = canSummarise,
      contextWindow = window\<rparr>"

text \<open>\<open>initializeModelProfiles\<close>: the registry, in the order of its \<open>set\<close> calls.\<close>

definition modelProfiles :: "(string \<times> ModelPerformanceProfile) list" where
  "modelProfiles =
     [(''claude-3-5-sonnet-20241022'',
         mkProfile ''claude-3-5-sonnet-20241022'' (3, 15) (6, 9, 8)
           (True, True, True, True, True, True) 200000),
      (''claude-3-5-haiku-20241022'',
         mkProfile ''claude-3-5-haiku-20241022'' (8 / 10, 4) (8, 7, 6)
           (True, True, False, True, True, True) 200000),
      (''gpt-4o'',
         mkProfile ''gpt-4o'' (5, 15) (7, 9, 8)
           (True, True, True, True, True, True) 128000),
      (''gpt-4o-mini'',
         mkProfile ''gpt-4o-mini'' (15 / 100, 6 / 10) (9, 6, 5)
           (True, True, False, True, True, True) 128000),
      (''gpt-4-turbo'',
         mkProfile ''gpt-4-turbo'' (10, 30) (5, 8, 9)
           (True, True, True, True, True, True) 128000),
      (''gpt-3.5-turbo'',
         mkProfile ''gpt-3.5-turbo'' (5 / 10, 15 / 10) (10, 5, 4)
           (True, False, False, True, True, True) 16385)]"

definition modelProfiles_get :: "string \<Rightarrow> ModelPerformanceProfile option" where
  "modelProfiles_get modelId = map_of modelProfiles modelId"

definition getModelCostEstimate :: "string \<Rightarrow> real \<Rightarrow> real \<Rightarrow> real" where
  "getModelCostEstimate m inputTokens outputTokens =
     (case modelProfiles_get m of
        None \<Rightarrow> 0
      | Some profile \<Rightarrow>
          (let inputCost = (inputTokens / 1000000) * cost_input profile;
               outputCost = (outputTokens / 1000000) * cost_output profile
           in inputCost + outputCost))"

text \<open>
  \<open>findModelInConfig\<close>: the first provider, in the order of \<open>Object.entries\<close>, one of whose
  models has the id.
\<close>

fun findModelInProviders :: "(string \<times> string list) list \<Rightarrow> string \<Rightarrow> ModelRef option" where
  "findModelInProviders [] modelId = None"
| "findModelInProviders ((provider, models) # rest) modelId =
     (if List.find (\<lambda>m. m = modelId) models \<noteq> None
      then Some \<lparr>ref_provider = provider, ref_model = modelId\<rparr>
      else findModelInProviders rest modelId)"

definition findModelInConfig :: "OpenClawConfig \<Rightarrow> string \<Rightarrow> ModelRef option" where
  "findModelInConfig config modelId =
     findModelInProviders (case providers config of None \<Rightarrow> [] | Some ps \<Rightarrow> ps) modelId"

text \<open>
  \<open>getAvailableModels\<close>: the loop over the registry's entries; each \<open>continue\<close> is a branch
  that goes on with the rest, a \<open>push\<close> puts the reference in front of what the rest yields.
\<close>

fun availableAmong ::
  "OpenClawConfig \<Rightarrow> ModelSelectionCriteria \<Rightarrow> (string \<times> ModelPerformanceProfile) list
    \<Rightarrow> ModelRef list" where
  "availableAmong config criteria [] = []"
| "availableAmong config criteria ((modelId, profile) # rest) =
     (if \<not> capabilities profile (taskType criteria) then availableAmong config criteria rest
      else if truthy_flag (requiresMultimodal criteria) \<and> \<not> capabilities_image profile
        then availableAmong config criteria rest
      else if truthy_flag (requiresReasoning criteria) \<and> \<not> capabilities_reasoning profile
        then availableAmong config criteria rest
      else if truthy (contextLength criteria)
              \<and> contextWindow profile < the (contextLength criteria)
        then availableAmong config criteria rest
      else (case findModelInConfig config modelId of
              Some modelRef \<Rightarrow> modelRef # availableAmong config criteria rest
            | None \<Rightarrow> availableAmong config criteria rest))"

definition getAvailableModels :: "OpenClawConfig \<Rightarrow> ModelSelectionCriteria \<Rightarrow> ModelRef list" where
  "getAvailableModels config criteria = availableAmong config criteria modelProfiles"

fun levelWeight :: "Level \<Rightarrow> real" where
  "levelWeight High = 3"
| "levelWeight Medium = 2"
| "levelWeight Low = 1"

definition getQualityWeight :: "ModelSelectionCriteria \<Rightarrow> real" where
  "getQualityWeight criteria = levelWeight (complexity criteria)"

definition getSpeedWeight :: "ModelSelectionCriteria \<Rightarrow> real" where
  "getSpeedWeight criteria = levelWeight (urgency criteria)"

definition getCostWeight :: "ModelSelectionCriteria \<Rightarrow> real" where
  "getCostWeight criteria = levelWeight (costSensitivity criteria)"

definition calculateCostScore :: "ModelPerformanceProfile \<Rightarrow> real" where
  "calculateCostScore profile =
     (let avgCost = (cost_input profile + cost_output profile) / 2
      in max 0 (10 - avgCost / 5))"

fun scoreModels :: "ModelRef list \<Rightarrow> ModelSelectionCriteria \<Rightarrow> ScoredModel list" where
  "scoreModels [] criteria = []"
| "scoreModels (m # rest) criteria =
     (case modelProfiles_get (ref_model m) of
        None \<Rightarrow> scoreModels rest criteria
      | Some profile \<Rightarrow>
          (let s0 = 0;
               s1 = s0 + performance_quality profile * getQualityWeight criteria;
               s2 = s1 + performance_speed profile * getSpeedWeight criteria;
               s3 = s2 + calculateCostScore profile * getCostWeight criteria;
               s4 = (if truthy_flag (requiresReasoning criteria)
                     then s3 + performance_reasoning profile * 2 else s3)
           in \<lparr>scored_model = m, score = s4\<rparr> # scoreModels rest criteria))"

text \<open>
  The price sum the fallback of \<open>applyBudgetConstraints\<close> sorts by. The source reads the
  profile with a non-null assertion, so a model without a profile makes the comparator
  throw a \<open>TypeError\<close>; \<open>applyBudgetConstraints\<close> below checks for that before it sorts.
\<close>

definition priceSum :: "ScoredModel \<Rightarrow> real" where
  "priceSum sm =
     (case modelProfiles_get (ref_model (scored_model sm)) of
        None \<Rightarrow> 0
      | Some profile \<Rightarrow> cost_input profile + cost_output profile)"

definition hasProfile :: "ScoredModel \<Rightarrow> bool" where
  "hasProfile sm = (modelProfiles_get (ref_model (scored_model sm)) \<noteq> None)"

definition affordable :: "real \<Rightarrow> ScoredModel \<Rightarrow> bool" where
  "affordable budget sm =
     (case modelProfiles_get (ref_model (scored_model sm)) of
        None \<Rightarrow> False
      | Some profile \<Rightarrow> getModelCostEstimate (ref_model (scored_model sm)) 1000 500 \<le> budget)"

text \<open>
  \<open>applyBudgetConstraints\<close>. \<open>!criteria.budgetRemaining\<close> holds for an absent budget and for
  the budget \<open>0\<close>. Reading \<open>[0].model\<close> of an empty array is a \<open>TypeError\<close>. The comparator of
  the fallback sort runs as soon as there are two models to compare.
\<close>

definition applyBudgetConstraints ::
  "ScoredModel list \<Rightarrow> ModelSelectionCriteria \<Rightarrow> js_error + ModelRef" where
  "applyBudgetConstraints scoredModels criteria =
     (if \<not> truthy (budgetRemaining criteria) then
        (case scoredModels of [] \<Rightarrow> Inl TypeError | first # _ \<Rightarrow> Inr (scored_model first))
      else
        (let affordableModels = filter (affordable (the (budgetRemaining criteria))) scoredModels
         in if length affordableModels = 0 then
              (if 2 \<le> length scoredModels \<and> \<not> list_all hasProfile scoredModels
               then Inl TypeError
               else (case toSorted (\<lambda>a b. priceSum a - priceSum b) scoredModels of
                       [] \<Rightarrow> Inl TypeError
                     | cheapestModel # _ \<Rightarrow> Inr (scored_model cheapestModel)))
            else Inr (scored_model (hd affordableModels))))"

definition selectOptimalModel ::
  "OpenClawConfig \<Rightarrow> ModelSelectionCriteria \<Rightarrow> js_error + ModelRef" where
  "selectOptimalModel config criteria =
     (let availableModels = getAvailableModels config criteria;
          scoredModels = scoreModels availableModels criteria;
          sortedModels = toSorted (\<lambda>a b. score b - score a) scoredModels
      in if length sortedModels = 0
         then Inl (Error ''No suitable models found for the given criteria'')
         else applyBudgetConstraints sortedModels criteria)"

subsection \<open>Notions the selector's properties are stated with\<close>

text \<open>
  The four capability tests of the loop in \<open>getAvailableModels\<close>, as one predicate on a
  profile, and the registry entries that pass them: the capability-eligible models, before
  the configuration is consulted.
\<close>

definition passesFilters :: "ModelSelectionCriteria \<Rightarrow> ModelPerformanceProfile \<Rightarrow> bool" where
  "passesFilters criteria profile =
     (capabilities profile (taskType criteria)
      \<and> (if truthy_flag (requiresMultimodal criteria) then capabilities_image profile else True)
      \<and> (if truthy_flag (requiresReasoning criteria) then capabilities_reasoning profile
          else True)
      \<and> (if truthy (contextLength criteria)
          then the (contextLength criteria) \<le> contextWindow profile else True))"

definition capabilityEligible ::
  "ModelSelectionCriteria \<Rightarrow> (string \<times> ModelPerformanceProfile) list" where
  "capabilityEligible criteria = filter (\<lambda>e. passesFilters criteria (snd e)) modelProfiles"

text \<open>The model ids the configuration lists, over all its providers.\<close>

definition configuredIds :: "OpenClawConfig \<Rightarrow> string list" where
  "configuredIds config =
     (case providers config of None \<Rightarrow> [] | Some ps \<Rightarrow> concat (map snd ps))"

text \<open>The raw price sum \<open>cost.input + cost.output\<close> of a model reference.\<close>

definition modelPriceSum :: "ModelRef \<Rightarrow> real" where
  "modelPriceSum m =
     (case modelProfiles_get (ref_model m) of
        None \<Rightarrow> 0
      | Some profile \<Rightarrow> cost_input profile + cost_output profile)"

subsection \<open>Concrete inputs\<close>

definition exampleConfig :: OpenClawConfig where
  "exampleConfig =
     \<lparr>providers = Some [(''openai'', [''gpt-4o'', ''gpt-4o-mini''])],
      budgetLimits_daily = None, modelBudgets = None\<rparr>"

definition emptyConfig :: OpenClawConfig where
  "emptyConfig = \<lparr>providers = None, budgetLimits_daily = None, modelBudgets = None\<rparr>"

definition exampleCriteria :: ModelSelectionCriteria where
  "exampleCriteria =
     \<lparr>taskType = Text, complexity = High, urgency = Low, costSensitivity = Low,
      budgetRemaining = Some 0, contextLength = None, requiresReasoning = None,
      requiresMultimodal = None\<rparr>"

definition tinyBudgetCriteria :: ModelSelectionCriteria where
  "tinyBudgetCriteria = exampleCriteria\<lparr>budgetRemaining := Some (1 / 1000000)\<rparr>"

definition reasoningCriteria :: ModelSelectionCriteria where
  "reasoningCriteria =
     \<lparr>taskType = Reasoning, complexity = High, urgency = Low, costSensitivity = Low,
      budgetRemaining = None, contextLength = None, requiresReasoning = Some True,
      requiresMultimodal = None\<rparr>"

definition hugeContextCriteria :: ModelSelectionCriteria where
  "hugeContextCriteria =
     \<lparr>taskType = Reasoning, complexity = High, urgency = Low, costSensitivity = Low,
      budgetRemaining = None, contextLength = Some 300000, requiresReasoning = Some True,
      requiresMultimodal = None\<rparr>"

section \<open>UsageTracker\<close>

datatype Period = Day | Week | Month

text \<open>
  A \<open>UsageRecord\<close> as its type declares it, with the fields the functions below read (the
  \<open>metadata\<close> object is left out). \<open>timestamp\<close> is a \<open>Date\<close>, given by its time value in
  milliseconds since the epoch.
\<close>

record UsageRecord =
  record_id :: string
  record_agentId :: string
  record_sessionId :: string
  record_provider :: string
  record_model :: string
  usage_input :: int
  usage_output :: int
  usage_cacheRead :: int
  usage_cacheWrite :: int
  usage_total :: int
  record_cost :: real
  record_timestamp :: int



datatype AlertLevel = Warning | Critical

record Alert =
  level :: AlertLevel
  threshold :: real
  current :: real
  message :: string

record BudgetStatus =
  status_period :: Period
  budget :: "real option"
  spent :: real
  remaining :: "real option"
  percentage :: "real option"
  overBudget :: bool
  alerts :: "Alert list"

subsection \<open>Dates and their rendering\<close>











subsection \<open>aggregateRecords\<close>










subsection \<open>checkBudget\<close>

fun periodName :: "Period \<Rightarrow> string" where
  "periodName Day = ''day''"
| "periodName Week = ''week''"
| "periodName Month = ''month''"

text \<open>
  \<open>checkBudget\<close>, from the records \<open>loadRecords\<close> has returned for the period's window (the
  matching records) on: \<open>records\<close> stands for that result. \<open>toFixed\<close> is the runtime's
  \<open>Number.prototype.toFixed\<close>, a parameter.
\<close>

definition checkBudget ::
  "(real \<Rightarrow> nat \<Rightarrow> string) \<Rightarrow> UsageRecord list \<Rightarrow> Period \<Rightarrow> real option \<Rightarrow> BudgetStatus" where
  "checkBudget toFixed records period budgetParam =
     (let spentTotal = foldl (\<lambda>total r. total + record_cost r) 0 records;
          status =
            \<lparr>status_period = period,
             budget = budgetParam,
             spent = spentTotal,
             remaining = (if truthy budgetParam then Some (max 0 (the budgetParam - spentTotal))
                          else None),
             percentage = (if truthy budgetParam then Some (spentTotal / the budgetParam * 100)
                           else None),
             overBudget = (if truthy budgetParam then spentTotal > the budgetParam else False),
             alerts = []\<rparr>
      in if truthy budgetParam \<and> truthy (percentage status) then
           (if the (percentage status) \<ge> 100 then
              status\<lparr>alerts := alerts status @
                [\<lparr>level = Critical, threshold = 100, current = the (percentage status),
                  message = ''Budget exceeded for '' @ periodName period @ '': $''
                    @ toFixed spentTotal 2 @ '' / $'' @ toFixed (the budgetParam) 2\<rparr>]\<rparr>
            else if the (percentage status) \<ge> 80 then
              status\<lparr>alerts := alerts status @
                [\<lparr>level = Warning, threshold = 80, current = the (percentage status),
                  message = ''Budget warning for '' @ periodName period @ '': $''
                    @ toFixed spentTotal 2 @ '' / $'' @ toFixed (the budgetParam) 2
                    @ '' ('' @ toFixed (the (percentage status)) 1 @ ''%)''\<rparr>]\<rparr>
            else status)
         else status)"

subsection \<open>Notions the tracker's properties are stated with\<close>










text \<open>The total spend of the matching records.\<close>

definition matchingSpend :: "UsageRecord list \<Rightarrow> real" where
  "matchingSpend records = sum_list (map record_cost records)"

subsection \<open>Concrete inputs\<close>










section \<open>ResponseCache\<close>

datatype StorageType = Memory | Disk

record NormalizedUsage =
  tokens_input :: "int option"
  tokens_output :: "int option"
  tokens_cacheRead :: "int option"
  tokens_cacheWrite :: "int option"
  tokens_total :: "int option"

text \<open>
  A cached response. \<open>timestamp\<close> is the time value of the \<open>Date\<close>, in milliseconds; \<open>ttl\<close> is in
  seconds.
\<close>

record CachedResponse =
  response :: string
  usage :: NormalizedUsage
  cost :: real
  timestamp :: int
  ttl :: real
  hitCount :: int

record CacheConfig =
  enabled :: bool
  storage_type :: StorageType
  storage_path :: "string option"
  storage_maxSize :: int
  ttl_default :: real
  ttl_perModel :: "(string \<times> real) list"
  hashing_algorithm :: string
  hashing_includeTemperature :: bool
  hashing_includeMaxTokens :: bool

text \<open>
  The constructor's argument, a \<open>Partial<CacheConfig>\<close>: each of the four top-level keys is
  given whole or not at all, since the spread \<open>...config\<close> replaces top-level keys.
\<close>

record PartialCacheConfig =
  partial_enabled :: "bool option"
  partial_storage :: "(StorageType \<times> string option \<times> int) option"
  partial_ttl :: "(real \<times> (string \<times> real) list) option"
  partial_hashing :: "(string \<times> bool \<times> bool) option"

subsection \<open>The file system under the storage path\<close>

text \<open>
  What the disk backend sees at \<open>this.storagePath\<close>: nothing, a regular file, or a directory
  with its files, listed in the order of \<open>readdirSync\<close>. A file of the directory has a modification
  time and a content, which \<open>JSON.parse\<close> and the reading of \<open>getDiskCache\<close> either turn into a
  cached response or fail on; \<open>JSON.stringify\<close> of a cached response is read back as the same
  response. Cache keys are taken to be plain file names, without path separators.
\<close>

datatype FileContent = Corrupted | Stored CachedResponse

record DiskFile =
  content :: FileContent
  mtime :: int

datatype StorageNode = Missing | RegularFile | Directory "(string \<times> DiskFile) list"

text \<open>
  The cache object: its configuration, the \<open>Map\<close> of the memory backend, and two facts of its
  environment: the node at the storage path, and whether \<open>require\<close> is defined where
  \<open>getDiskCacheFiles\<close> calls it (it is in a CommonJS module and is not in an ES module, where
  the call throws a \<open>ReferenceError\<close> that the surrounding \<open>try\<close> catches).
\<close>

record ResponseCache =
  cache_config :: CacheConfig
  memoryCache :: "(string \<times> CachedResponse) list"
  storageNode :: StorageNode
  requireDefined :: bool

record CacheStats =
  stats_size :: nat
  totalHits :: int
  totalCostSaved :: real
  averageHitRate :: real

text \<open>
  The argument of \<open>set\<close>. The optional sampling parameters are only ever tested against
  \<open>undefined\<close> and spliced into a template string, so they are carried as the text
  \<open>${params.temperature}\<close> and \<open>${params.maxTokens}\<close> render.
\<close>

record SetParams =
  param_key :: string
  param_response :: string
  param_usage :: NormalizedUsage
  param_cost :: real
  param_ttl :: "real option"
  param_temperature :: "string option"
  param_maxTokens :: "string option"

subsection \<open>The constructor\<close>

definition defaultCacheConfig :: CacheConfig where
  "defaultCacheConfig =
     \<lparr>enabled = True, storage_type = Memory, storage_path = None, storage_maxSize = 1000,
      ttl_default = 3600,
      ttl_perModel = [(''gpt-4o'', 7200), (''claude-3-5-sonnet-20241022'', 7200),
                      (''gpt-4o-mini'', 1800)],
      hashing_algorithm = ''sha256'', hashing_includeTemperature = True,
      hashing_includeMaxTokens = True\<rparr>"

definition mergeConfig :: "PartialCacheConfig \<Rightarrow> CacheConfig" where
  "mergeConfig partial =
     (let c0 = defaultCacheConfig;
          c1 = (case partial_enabled partial of None \<Rightarrow> c0 | Some e \<Rightarrow> c0\<lparr>enabled := e\<rparr>);
          c2 = (case partial_storage partial of
                  None \<Rightarrow> c1
                | Some (t, p, m) \<Rightarrow>
                    c1\<lparr>storage_type := t, storage_path := p, storage_maxSize := m\<rparr>);
          c3 = (case partial_ttl partial of
                  None \<Rightarrow> c2
                | Some (d, pm) \<Rightarrow> c2\<lparr>ttl_default := d, ttl_perModel := pm\<rparr>);
          c4 = (case partial_hashing partial of
                  None \<Rightarrow> c3
                | Some (a, t, m) \<Rightarrow>
                    c3\<lparr>hashing_algorithm := a, hashing_includeTemperature := t,
                       hashing_includeMaxTokens := m\<rparr>)
      in c4)"

text \<open>
  \<open>new ResponseCache(config)\<close>, given what is at the storage path and whether \<open>require\<close> is
  defined: for the disk backend \<open>mkdirSync\<close> makes the directory when nothing is there.
\<close>

definition ResponseCache_new :: "PartialCacheConfig \<Rightarrow> StorageNode \<Rightarrow> bool \<Rightarrow> ResponseCache" where
  "ResponseCache_new partial node req =
     (let cfg = mergeConfig partial
      in \<lparr>cache_config = cfg, memoryCache = [],
          storageNode = (if storage_type cfg = Disk \<and> node = Missing then Directory [] else node),
          requireDefined = req\<rparr>)"

subsection \<open>Keys\<close>

text \<open>
  \<open>createHash(algorithm).update(keyString).digest("hex")\<close>: the digest is the runtime's, a
  parameter \<open>digest\<close> from the algorithm's name and the data to the bytes of the digest (the
  name is taken to be one the runtime supports); the \<open>hex\<close> encoding writes each byte as two
  digits of \<open>0123456789abcdef\<close>.
\<close>

definition hexDigit :: "nat \<Rightarrow> char" where
  "hexDigit n = ''0123456789abcdef'' ! (n mod 16)"

definition hexEncode :: "8 word list \<Rightarrow> string" where
  "hexEncode bytes = concat (map (\<lambda>b. [hexDigit (unat b div 16), hexDigit (unat b mod 16)]) bytes)"

definition generateCacheKey ::
  "(string \<Rightarrow> string \<Rightarrow> 8 word list) \<Rightarrow> CacheConfig \<Rightarrow> string \<Rightarrow> string option \<Rightarrow> string option
    \<Rightarrow> string" where
  "generateCacheKey digest cfg prompt temperature maxTokens =
     (let k0 = prompt;
          k1 = (if hashing_includeTemperature cfg \<and> temperature \<noteq> None
                then k0 @ ''|temp:'' @ the temperature else k0);
          k2 = (if hashing_includeMaxTokens cfg \<and> maxTokens \<noteq> None
                then k1 @ ''|max:'' @ the maxTokens else k1)
      in hexEncode (digest (hashing_algorithm cfg) k2))"

subsection \<open>The disk backend\<close>

definition endsWith :: "string \<Rightarrow> string \<Rightarrow> bool" where
  "endsWith s suffix =
     (length suffix \<le> length s \<and> drop (length s - length suffix) s = suffix)"

text \<open>\<open>s.replace(pattern, replacement)\<close> with a string pattern: the first occurrence only.\<close>

fun replaceFirst :: "string \<Rightarrow> string \<Rightarrow> string \<Rightarrow> string" where
  "replaceFirst pattern replacement [] = (if pattern = [] then replacement else [])"
| "replaceFirst pattern replacement (c # cs) =
     (if take (length pattern) (c # cs) = pattern
      then replacement @ drop (length pattern) (c # cs)
      else c # replaceFirst pattern replacement cs)"

text \<open>
  \<open>getDiskCache\<close>: the response stored in the key's file, and the node afterwards (a file that
  cannot be read as a response is deleted).
\<close>

definition getDiskCache :: "StorageNode \<Rightarrow> string \<Rightarrow> CachedResponse option \<times> StorageNode" where
  "getDiskCache node cacheKey =
     (let fileName = cacheKey @ ''.json''
      in case node of
           Directory files \<Rightarrow>
             (case map_of files fileName of
                None \<Rightarrow> (None, node)
              | Some file \<Rightarrow>
                  (case content file of
                     Stored data \<Rightarrow> (Some data, node)
                   | Corrupted \<Rightarrow> (None, Directory (AList.delete fileName files))))
         | Missing \<Rightarrow> (None, node)
         | RegularFile \<Rightarrow> (None, node))"

text \<open>\<open>setDiskCache\<close>: \<open>writeFileSync\<close> needs the directory.\<close>

definition setDiskCache ::
  "StorageNode \<Rightarrow> string \<Rightarrow> CachedResponse \<Rightarrow> int \<Rightarrow> js_error + StorageNode" where
  "setDiskCache node cacheKey cached now =
     (case node of
        Directory files \<Rightarrow>
          Inr (Directory (AList.update (cacheKey @ ''.json'')
                 \<lparr>content = Stored cached, mtime = now\<rparr> files))
      | Missing \<Rightarrow> Inl ENOENT
      | RegularFile \<Rightarrow> Inl ENOTDIR)"

definition getDiskCacheFiles :: "ResponseCache \<Rightarrow> (string \<times> int) list" where
  "getDiskCacheFiles this =
     (case storageNode this of
        Directory files \<Rightarrow>
          (if requireDefined this
           then map (\<lambda>entry. (fst entry, mtime (snd entry)))
                  (filter (\<lambda>entry. endsWith (fst entry) ''.json'') files)
           else [])
      | Missing \<Rightarrow> []
      | RegularFile \<Rightarrow> [])"

text \<open>\<open>unlinkSync\<close> inside \<open>try\<close>: a file that is not there is skipped.\<close>

definition unlinkAll :: "string list \<Rightarrow> StorageNode \<Rightarrow> StorageNode" where
  "unlinkAll names node =
     (case node of
        Directory files \<Rightarrow> Directory (foldl (\<lambda>fs name. AList.delete name fs) files names)
      | Missing \<Rightarrow> node
      | RegularFile \<Rightarrow> node)"

definition enforceDiskCacheLimit :: "ResponseCache \<Rightarrow> ResponseCache" where
  "enforceDiskCacheLimit this =
     (let files = getDiskCacheFiles this
      in if int (length files) \<le> storage_maxSize (cache_config this) then this
         else
           (let sortedFiles = toSorted (\<lambda>a b. real_of_int (snd a) - real_of_int (snd b)) files;
                filesToDelete =
                  take (nat (int (length files) - storage_maxSize (cache_config this))) sortedFiles
            in this\<lparr>storageNode := unlinkAll (map fst filesToDelete) (storageNode this)\<rparr>))"

text \<open>
  The loop of \<open>getAllDiskCache\<close> over the listed file names. It keeps, next to each response it
  reads, the key it read it under; \<open>getAllDiskCache\<close> returns the responses.
\<close>

fun readAll ::
  "StorageNode \<Rightarrow> string list \<Rightarrow> (string \<times> CachedResponse) list \<times> StorageNode" where
  "readAll node [] = ([], node)"
| "readAll node (name # names) =
     (let cacheKey = replaceFirst ''.json'' '''' name;
          step = getDiskCache node cacheKey;
          rest = readAll (snd step) names
      in case fst step of
           Some cached \<Rightarrow> ((cacheKey, cached) # fst rest, snd rest)
         | None \<Rightarrow> rest)"

definition getAllDiskCache :: "ResponseCache \<Rightarrow> CachedResponse list \<times> ResponseCache" where
  "getAllDiskCache this =
     (let result = readAll (storageNode this) (map fst (getDiskCacheFiles this))
      in (map snd (fst result), this\<lparr>storageNode := snd result\<rparr>))"

subsection \<open>The operations\<close>

definition deleteEntry :: "ResponseCache \<Rightarrow> string \<Rightarrow> ResponseCache" where
  "deleteEntry this cacheKey =
     (if storage_type (cache_config this) = Memory
      then this\<lparr>memoryCache := AList.delete cacheKey (memoryCache this)\<rparr>
      else this\<lparr>storageNode := unlinkAll [cacheKey @ ''.json''] (storageNode this)\<rparr>)"

text \<open>
  \<open>evictOldest\<close>: the first key of the \<open>Map\<close>; \<open>if (oldestKey)\<close> fails for the empty \<open>Map\<close> and
  for the empty string.
\<close>

definition evictOldest :: "ResponseCache \<Rightarrow> ResponseCache" where
  "evictOldest this =
     (if storage_type (cache_config this) = Memory
      then (case memoryCache this of
              [] \<Rightarrow> this
            | (oldestKey, _) # _ \<Rightarrow>
                (if oldestKey \<noteq> ''''
                 then this\<lparr>memoryCache := AList.delete oldestKey (memoryCache this)\<rparr>
                 else this))
      else enforceDiskCacheLimit this)"

text \<open>\<open>get\<close>, at the instant \<open>now\<close> (\<open>Date.now()\<close>, in milliseconds).\<close>

definition ResponseCache_get ::
  "int \<Rightarrow> string \<Rightarrow> ResponseCache \<Rightarrow> js_error + (CachedResponse option \<times> ResponseCache)" where
  "ResponseCache_get now cacheKey this =
     (if \<not> enabled (cache_config this) then Inr (None, this)
      else
        (let lookup = (if storage_type (cache_config this) = Memory
                       then (map_of (memoryCache this) cacheKey, this)
                       else (let r = getDiskCache (storageNode this) cacheKey
                             in (fst r, this\<lparr>storageNode := snd r\<rparr>)));
             this1 = snd lookup
         in case fst lookup of
              None \<Rightarrow> Inr (None, this1)
            | Some cached \<Rightarrow>
                (if real_of_int (now - timestamp cached) > ttl cached * 1000
                 then Inr (None, deleteEntry this1 cacheKey)
                 else
                   (let hit = cached\<lparr>hitCount := hitCount cached + 1\<rparr>
                    in if storage_type (cache_config this) = Memory
                       then Inr (Some hit,
                              this1\<lparr>memoryCache :=
                                AList.update cacheKey hit (memoryCache this1)\<rparr>)
                       else (case setDiskCache (storageNode this1) cacheKey hit now of
                               Inl e \<Rightarrow> Inl e
                             | Inr node \<Rightarrow> Inr (Some hit, this1\<lparr>storageNode := node\<rparr>))))))"

text \<open>\<open>set\<close>, at the instant \<open>now\<close> (\<open>new Date()\<close>).\<close>

definition ResponseCache_set ::
  "(string \<Rightarrow> string \<Rightarrow> 8 word list) \<Rightarrow> int \<Rightarrow> SetParams \<Rightarrow> ResponseCache
    \<Rightarrow> js_error + ResponseCache" where
  "ResponseCache_set digest now params this =
     (if \<not> enabled (cache_config this) then Inr this
      else
        (let cacheKey = generateCacheKey digest (cache_config this) (param_key params)
                          (param_temperature params) (param_maxTokens params);
             ttlValue = (if truthy (param_ttl params) then the (param_ttl params)
                         else ttl_default (cache_config this));
             cachedResponse =
               \<lparr>response = param_response params, usage = param_usage params,
                cost = param_cost params, timestamp = now, ttl = ttlValue, hitCount = 0\<rparr>
         in if storage_type (cache_config this) = Memory
            then
              (let this1 = (if int (length (memoryCache this))
                                 \<ge> storage_maxSize (cache_config this)
                            then evictOldest this else this)
               in Inr (this1\<lparr>memoryCache :=
                        AList.update cacheKey cachedResponse (memoryCache this1)\<rparr>))
            else
              (case setDiskCache (storageNode this) cacheKey cachedResponse now of
                 Inl e \<Rightarrow> Inl e
               | Inr node \<Rightarrow> Inr (enforceDiskCacheLimit (this\<lparr>storageNode := node\<rparr>)))))"

text \<open>
  \<open>clear\<close>. For the disk backend the source calls \<open>readFileSync(this.storagePath, "utf-8")\<close>,
  outside any \<open>try\<close>: on a directory this throws \<open>EISDIR\<close> (on Linux, macOS and Windows),
  before the loop that unlinks. On a regular file it returns the lines of the file, and
  every \<open>unlinkSync(join(this.storagePath, line))\<close> then fails inside its \<open>try\<close>.
\<close>

definition ResponseCache_clear :: "ResponseCache \<Rightarrow> js_error + ResponseCache" where
  "ResponseCache_clear this =
     (if storage_type (cache_config this) = Memory
      then Inr (this\<lparr>memoryCache := []\<rparr>)
      else (case storageNode this of
              Missing \<Rightarrow> Inr this
            | Directory files \<Rightarrow> Inl EISDIR
            | RegularFile \<Rightarrow> Inr this))"

definition getStats :: "ResponseCache \<Rightarrow> CacheStats \<times> ResponseCache" where
  "getStats this =
     (let loaded = (if storage_type (cache_config this) = Memory
                    then (map snd (memoryCache this), this)
                    else getAllDiskCache this);
          cache = fst loaded;
          hits = foldl (\<lambda>total item. total + hitCount item) 0 cache;
          saved = foldl (\<lambda>total item. total + cost item * real_of_int (hitCount item)) 0 cache;
          rate = (if length cache > 0 then real_of_int hits / real (length cache) else 0)
      in (\<lparr>stats_size = length cache, totalHits = hits, totalCostSaved = saved,
           averageHitRate = rate\<rparr>, snd loaded))"

subsection \<open>Notions the cache's properties are stated with\<close>

text \<open>The entry the backing store holds under a key.\<close>

definition storedEntry :: "ResponseCache \<Rightarrow> string \<Rightarrow> CachedResponse option" where
  "storedEntry this cacheKey =
     (if storage_type (cache_config this) = Memory
      then map_of (memoryCache this) cacheKey
      else fst (getDiskCache (storageNode this) cacheKey))"



subsection \<open>Concrete inputs\<close>

definition noOverrides :: PartialCacheConfig where
  "noOverrides =
     \<lparr>partial_enabled = None, partial_storage = None, partial_ttl = None,
      partial_hashing = None\<rparr>"

definition diskOverrides :: PartialCacheConfig where
  "diskOverrides = noOverrides\<lparr>partial_storage := Some (Disk, None, 1000)\<rparr>"

definition exampleUsage :: NormalizedUsage where
  "exampleUsage =
     \<lparr>tokens_input = Some 100, tokens_output = Some 50, tokens_cacheRead = None,
      tokens_cacheWrite = None, tokens_total = None\<rparr>"

text \<open>The call \<open>set({key: "k1", response: "R", usage: {input: 100, output: 50}, cost: 0.01})\<close>.\<close>

definition k1Params :: SetParams where
  "k1Params =
     \<lparr>param_key = ''k1'', param_response = ''R'', param_usage = exampleUsage,
      param_cost = 1 / 100, param_ttl = None, param_temperature = None,
      param_maxTokens = None\<rparr>"

text \<open>An entry made at time \<open>0\<close> with a time to live of one second.\<close>

definition shortLived :: CachedResponse where
  "shortLived =
     \<lparr>response = ''R'', usage = exampleUsage, cost = 1 / 100, timestamp = 0, ttl = 1,
      hitCount = 0\<rparr>"

definition memoryWithK1 :: ResponseCache where
  "memoryWithK1 = (ResponseCache_new noOverrides Missing True)\<lparr>memoryCache := [(''k1'', shortLived)]\<rparr>"

definition diskWithK1 :: ResponseCache where
  "diskWithK1 =
     (ResponseCache_new diskOverrides Missing True)
       \<lparr>storageNode := Directory [(''k1.json'', \<lparr>content = Stored shortLived, mtime = 0\<rparr>)]\<rparr>"

text \<open>
  A stand-in for the runtime's digest, to run \<open>set\<close> on concrete inputs: the bytes of the data
  themselves. What is proved about \<open>set\<close> in general is proved for every digest.
\<close>

definition plainDigest :: "string \<Rightarrow> string \<Rightarrow> 8 word list" where
  "plainDigest algorithm data = map (\<lambda>c. of_nat (of_char c)) data"

text \<open>The cache \<open>set\<close> leaves when \<open>k1Params\<close> is stored in a new default cache at time \<open>0\<close>.\<close>

definition storedByPlain :: ResponseCache where
  "storedByPlain =
     \<lparr>cache_config = defaultCacheConfig,
      memoryCache =
        [(''6b31'', \<lparr>response = ''R'', usage = exampleUsage, cost = 1 / 100, timestamp = 0,
                     ttl = 3600, hitCount = 0\<rparr>)],
      storageNode = Missing, requireDefined = True\<rparr>"

chapter \<open>Properties\<close>

section \<open>BudgetEnforcer\<close>

text \<open>
  Claim C2. For every agent id, estimated cost and configuration (whatever the daily budget
  of the configuration or of the cost controls, whatever the per-model budgets),
  \<open>checkBudgetUsage\<close> returns \<open>allowed = true\<close> with no reason and no alternative model.
\<close>

theorem checkBudgetUsage_always_allowed:
  "checkBudgetUsage this agentId estimatedCost config
     = \<lparr>allowed = True, reason = None, alternativeModel = None\<rparr>"
  by (simp add: checkBudgetUsage_def Let_def)

section \<open>CostOptimizedModelSelector\<close>

subsection \<open>What the selector can return\<close>


lemma distinct_modelProfiles: "distinct (map fst modelProfiles)"
  by (simp add: modelProfiles_def)

lemma findModelInProviders_Some:
  "findModelInProviders ps modelId = Some m \<Longrightarrow>
     ref_model m = modelId \<and> (\<exists>ms. (ref_provider m, ms) \<in> set ps \<and> modelId \<in> set ms)"
proof (induction ps)
  case Nil
  then show ?case by simp
next
  case (Cons a ps)
  obtain provider models where a: "a = (provider, models)" by (cases a)
  show ?case
  proof (cases "List.find (\<lambda>x. x = modelId) models")
    case None
    with Cons a show ?thesis by auto
  next
    case (Some x)
    then have "modelId \<in> set models" by (auto simp: find_Some_iff)
    with Cons.prems a Some show ?thesis by auto
  qed
qed

lemma findModelInProviders_None:
  "modelId \<notin> set (concat (map snd ps)) \<Longrightarrow> findModelInProviders ps modelId = None"
  by (induction ps) (auto simp: find_None_iff)

lemma availableAmong_sound:
  "m \<in> set (availableAmong config criteria reg) \<Longrightarrow>
     \<exists>p. (ref_model m, p) \<in> set reg \<and> passesFilters criteria p
        \<and> findModelInConfig config (ref_model m) = Some m"
proof (induction reg)
  case Nil
  then show ?case by simp
next
  case (Cons e reg)
  obtain modelId profile where e: "e = (modelId, profile)" by (cases e)
  show ?case
  proof (cases "m \<in> set (availableAmong config criteria reg)")
    case True
    with Cons.IH show ?thesis by auto
  next
    case False
    with Cons.prems e have pass: "passesFilters criteria profile"
      and f: "findModelInConfig config modelId = Some m"
      by (auto simp: passesFilters_def split: if_splits option.splits)
    from f have "ref_model m = modelId"
      by (auto simp: findModelInConfig_def dest: findModelInProviders_Some)
    with pass f e show ?thesis by auto
  qed
qed

lemma availableAmong_none:
  "\<forall>e \<in> set reg. findModelInConfig config (fst e) = None \<Longrightarrow> availableAmong config criteria reg = []"
  by (induction reg) auto

lemma availableAmong_ineligible:
  "filter (\<lambda>e. passesFilters criteria (snd e)) reg = [] \<Longrightarrow> availableAmong config criteria reg = []"
  by (induction reg) (auto simp: passesFilters_def split: if_splits)

lemma set_insertSorted: "set (insertSorted cmp x ys) = insert x (set ys)"
  by (induction ys) auto

lemma set_toSorted: "set (toSorted cmp xs) = set xs"
  by (induction xs) (auto simp: toSorted_def set_insertSorted)

lemma toSorted_Nil_iff: "toSorted cmp xs = [] \<longleftrightarrow> xs = []"
  using set_toSorted [of cmp xs] by (metis set_empty)

lemma scoreModels_subset: "sm \<in> set (scoreModels ms criteria) \<Longrightarrow> scored_model sm \<in> set ms"
  by (induction ms) (auto simp: Let_def split: option.splits)

lemma applyBudgetConstraints_member:
  assumes "applyBudgetConstraints xs criteria = Inr m"
  shows "m \<in> scored_model ` set xs"
proof (cases "truthy (budgetRemaining criteria)")
  case False
  with assms show ?thesis
    by (auto simp: applyBudgetConstraints_def split: list.splits)
next
  case True
  let ?aff = "filter (affordable (the (budgetRemaining criteria))) xs"
  show ?thesis
  proof (cases "?aff = []")
    case True
    with assms \<open>truthy (budgetRemaining criteria)\<close>
    obtain c rest where srt: "toSorted (\<lambda>a b. priceSum a - priceSum b) xs = c # rest"
      and m: "m = scored_model c"
      by (auto simp: applyBudgetConstraints_def Let_def split: if_splits list.splits)
    have "c \<in> set xs" using set_toSorted [of "\<lambda>a b. priceSum a - priceSum b" xs] srt by auto
    with m show ?thesis by auto
  next
    case False
    then have "hd ?aff \<in> set ?aff" by (rule hd_in_set)
    then have "hd ?aff \<in> set xs" by (metis filter_is_subset subsetD)
    moreover from assms \<open>truthy (budgetRemaining criteria)\<close> False
    have "m = scored_model (hd ?aff)"
      by (auto simp: applyBudgetConstraints_def Let_def)
    ultimately show ?thesis by auto
  qed
qed

lemma selectOptimalModel_available:
  assumes "selectOptimalModel config criteria = Inr m"
  shows "m \<in> set (getAvailableModels config criteria)"
proof -
  let ?sorted = "toSorted (\<lambda>a b. score b - score a)
                   (scoreModels (getAvailableModels config criteria) criteria)"
  from assms have "applyBudgetConstraints ?sorted criteria = Inr m"
    by (auto simp: selectOptimalModel_def Let_def split: if_splits)
  then have "m \<in> scored_model ` set ?sorted" by (rule applyBudgetConstraints_member)
  then show ?thesis by (auto simp: set_toSorted dest: scoreModels_subset)
qed

lemma selectOptimalModel_none:
  assumes "getAvailableModels config criteria = []"
  shows "selectOptimalModel config criteria = Inl (Error ''No suitable models found for the given criteria'')"
  using assms by (simp add: selectOptimalModel_def toSorted_def)


lemma modelProfiles_get_member:
  "(modelId, p) \<in> set modelProfiles \<Longrightarrow> modelProfiles_get modelId = Some p"
  unfolding modelProfiles_get_def using distinct_modelProfiles by simp

lemma available_profile:
  assumes "m \<in> set (getAvailableModels config criteria)"
  shows "\<exists>p. modelProfiles_get (ref_model m) = Some p \<and> passesFilters criteria p
           \<and> findModelInConfig config (ref_model m) = Some m"
  using availableAmong_sound [OF assms [unfolded getAvailableModels_def]]
  by (auto dest: modelProfiles_get_member)

subsection \<open>Capability filtering and the hard failure\<close>

text \<open>
  Claim C6. When \<open>requiresReasoning\<close> is true, every model \<open>selectOptimalModel\<close> returns has
  a registry profile with \<open>capabilities.reasoning = true\<close>, so no model whose profile has the flag
  false is returned. When no registry model passes the capability filters (and, more
  generally, when \<open>getAvailableModels\<close> yields nothing) the call fails with the explicit error
  \<open>No suitable models found for the given criteria\<close>; it does not fall back to some model.
\<close>

theorem selectOptimalModel_reasoning_filter:
  "(requiresReasoning criteria = Some True \<longrightarrow>
      (\<forall>m. selectOptimalModel config criteria = Inr m \<longrightarrow>
         (\<exists>p. modelProfiles_get (ref_model m) = Some p \<and> capabilities_reasoning p)))
   \<and> (capabilityEligible criteria = [] \<longrightarrow>
         selectOptimalModel config criteria
           = Inl (Error ''No suitable models found for the given criteria''))
   \<and> (getAvailableModels config criteria = [] \<longrightarrow>
         selectOptimalModel config criteria
           = Inl (Error ''No suitable models found for the given criteria''))"
proof (intro conjI impI allI)
  fix m
  assume r: "requiresReasoning criteria = Some True"
    and s: "selectOptimalModel config criteria = Inr m"
  from s have "m \<in> set (getAvailableModels config criteria)"
    by (rule selectOptimalModel_available)
  then obtain p where "modelProfiles_get (ref_model m) = Some p" "passesFilters criteria p"
    using available_profile by blast
  with r show "\<exists>p. modelProfiles_get (ref_model m) = Some p \<and> capabilities_reasoning p"
    by (auto simp: passesFilters_def truthy_flag_def)
next
  assume "capabilityEligible criteria = []"
  then have "getAvailableModels config criteria = []"
    unfolding capabilityEligible_def getAvailableModels_def by (rule availableAmong_ineligible)
  then show "selectOptimalModel config criteria
      = Inl (Error ''No suitable models found for the given criteria'')"
    by (rule selectOptimalModel_none)
next
  assume "getAvailableModels config criteria = []"
  then show "selectOptimalModel config criteria
      = Inl (Error ''No suitable models found for the given criteria'')"
    by (rule selectOptimalModel_none)
qed

theorem selectOptimalModel_reasoning_filter_witness:
  "requiresReasoning reasoningCriteria = Some True
   \<and> selectOptimalModel exampleConfig reasoningCriteria
       = Inr \<lparr>ref_provider = ''openai'', ref_model = ''gpt-4o''\<rparr>
   \<and> (\<exists>p. modelProfiles_get ''gpt-4o'' = Some p \<and> capabilities_reasoning p)
   \<and> capabilityEligible hugeContextCriteria = []
   \<and> selectOptimalModel exampleConfig hugeContextCriteria
       = Inl (Error ''No suitable models found for the given criteria'')"
proof -
  have r: "requiresReasoning reasoningCriteria = Some True"
    by (simp add: reasoningCriteria_def)
  have s: "selectOptimalModel exampleConfig reasoningCriteria
       = Inr \<lparr>ref_provider = ''openai'', ref_model = ''gpt-4o''\<rparr>"
    by code_simp
  have e: "capabilityEligible hugeContextCriteria = []"
    by code_simp
  from selectOptimalModel_reasoning_filter [of reasoningCriteria exampleConfig] r s
  have p: "\<exists>p. modelProfiles_get ''gpt-4o'' = Some p \<and> capabilities_reasoning p"
    by auto
  from selectOptimalModel_reasoning_filter [of hugeContextCriteria exampleConfig] e
  have n: "selectOptimalModel exampleConfig hugeContextCriteria
       = Inl (Error ''No suitable models found for the given criteria'')"
    by blast
  from r s p e n show ?thesis by blast
qed

subsection \<open>The intersection with the configuration\<close>

text \<open>
  Claim C10. A model returned by \<open>selectOptimalModel\<close> is an id of the hardcoded registry and is
  listed among the \<open>models\<close> of the provider it is returned with, in
  \<open>config.models.providers\<close>. Hence a configuration that lists none of the registry's ids (in
  particular one without providers) makes \<open>selectOptimalModel\<close> fail with the
  \<open>No suitable models\<close> error for every criteria, also when registry models pass all the
  capability filters (the witness shows such criteria).
\<close>

theorem selectOptimalModel_config_intersection:
  "(\<forall>m. selectOptimalModel config criteria = Inr m \<longrightarrow>
       ref_model m \<in> set (map fst modelProfiles)
       \<and> (\<exists>ps models. providers config = Some ps \<and> (ref_provider m, models) \<in> set ps
             \<and> ref_model m \<in> set models))
   \<and> (set (configuredIds config) \<inter> set (map fst modelProfiles) = {} \<longrightarrow>
        selectOptimalModel config criteria
          = Inl (Error ''No suitable models found for the given criteria''))"
proof (intro conjI impI allI)
  fix m
  assume "selectOptimalModel config criteria = Inr m"
  then have "m \<in> set (getAvailableModels config criteria)"
    by (rule selectOptimalModel_available)
  then obtain p where p: "(ref_model m, p) \<in> set modelProfiles"
    and f: "findModelInConfig config (ref_model m) = Some m"
    using availableAmong_sound unfolding getAvailableModels_def by blast
  from p show "ref_model m \<in> set (map fst modelProfiles)" by force
  from f obtain ps where ps: "providers config = Some ps"
    and "findModelInProviders ps (ref_model m) = Some m"
    by (cases "providers config") (auto simp: findModelInConfig_def)
  then show "\<exists>ps models. providers config = Some ps \<and> (ref_provider m, models) \<in> set ps
             \<and> ref_model m \<in> set models"
    using findModelInProviders_Some by blast
next
  assume disj: "set (configuredIds config) \<inter> set (map fst modelProfiles) = {}"
  have "\<forall>e \<in> set modelProfiles. findModelInConfig config (fst e) = None"
  proof
    fix e assume "e \<in> set modelProfiles"
    with disj have "fst e \<notin> set (configuredIds config)" by auto
    then show "findModelInConfig config (fst e) = None"
      by (cases "providers config")
         (auto simp: findModelInConfig_def configuredIds_def intro: findModelInProviders_None)
  qed
  then have "getAvailableModels config criteria = []"
    unfolding getAvailableModels_def by (rule availableAmong_none)
  then show "selectOptimalModel config criteria
      = Inl (Error ''No suitable models found for the given criteria'')"
    by (rule selectOptimalModel_none)
qed

theorem selectOptimalModel_config_intersection_witness:
  "selectOptimalModel exampleConfig reasoningCriteria
       = Inr \<lparr>ref_provider = ''openai'', ref_model = ''gpt-4o''\<rparr>
   \<and> ''gpt-4o'' \<in> set (map fst modelProfiles)
   \<and> ''gpt-4o'' \<in> set (configuredIds exampleConfig)
   \<and> set (configuredIds emptyConfig) \<inter> set (map fst modelProfiles) = {}
   \<and> capabilityEligible reasoningCriteria \<noteq> []
   \<and> selectOptimalModel emptyConfig reasoningCriteria
       = Inl (Error ''No suitable models found for the given criteria'')"
proof -
  have s: "selectOptimalModel exampleConfig reasoningCriteria
       = Inr \<lparr>ref_provider = ''openai'', ref_model = ''gpt-4o''\<rparr>"
    by code_simp
  from selectOptimalModel_config_intersection [of exampleConfig reasoningCriteria] s
  have a: "''gpt-4o'' \<in> set (map fst modelProfiles)" by auto
  have b: "''gpt-4o'' \<in> set (configuredIds exampleConfig)"
    by (simp add: configuredIds_def exampleConfig_def)
  have d: "set (configuredIds emptyConfig) \<inter> set (map fst modelProfiles) = {}"
    by (simp add: configuredIds_def emptyConfig_def)
  have e: "capabilityEligible reasoningCriteria \<noteq> []" by code_simp
  from selectOptimalModel_config_intersection [of emptyConfig reasoningCriteria] d
  have n: "selectOptimalModel emptyConfig reasoningCriteria
       = Inl (Error ''No suitable models found for the given criteria'')"
    by blast
  from s a b d e n show ?thesis by blast
qed

subsection \<open>The budget fallback\<close>

text \<open>
  Claim C5, at the budget \<open>0\<close>. The configuration offers \<open>gpt-4o\<close> and \<open>gpt-4o-mini\<close>; both are
  eligible for the criteria, and the reference request (1000 input and 500 output tokens)
  costs more than the remaining budget \<open>0\<close> on either. The claim asks for the model of least
  price sum, \<open>gpt-4o-mini\<close> (0.75 against 20). Since \<open>!criteria.budgetRemaining\<close> is true
  for \<open>0\<close>, \<open>applyBudgetConstraints\<close> returns the best-scored model instead, \<open>gpt-4o\<close>.
\<close>

theorem selectOptimalModel_zero_budget:
  "budgetRemaining exampleCriteria = Some 0
   \<and> getAvailableModels exampleConfig exampleCriteria
       = [\<lparr>ref_provider = ''openai'', ref_model = ''gpt-4o''\<rparr>,
          \<lparr>ref_provider = ''openai'', ref_model = ''gpt-4o-mini''\<rparr>]
   \<and> getModelCostEstimate ''gpt-4o'' 1000 500 = 125 / 10000
   \<and> getModelCostEstimate ''gpt-4o-mini'' 1000 500 = 45 / 100000
   \<and> modelPriceSum \<lparr>ref_provider = ''openai'', ref_model = ''gpt-4o''\<rparr> = 20
   \<and> modelPriceSum \<lparr>ref_provider = ''openai'', ref_model = ''gpt-4o-mini''\<rparr> = 75 / 100
   \<and> selectOptimalModel exampleConfig exampleCriteria
       = Inr \<lparr>ref_provider = ''openai'', ref_model = ''gpt-4o''\<rparr>"
  by code_simp



lemma insertSorted_key: "insertSorted (\<lambda>a b. f a - f b) x ys = insort_key f x ys"
  by (induction ys) auto

lemma toSorted_key: "toSorted (\<lambda>a b. f a - f b) xs = sort_key f xs"
  by (induction xs) (simp_all add: toSorted_def sort_key_def insertSorted_key)

lemma toSorted_key_head:
  assumes "toSorted (\<lambda>a b. f a - f b) xs = c # rest" and "y \<in> set xs"
  shows "f c \<le> (f y :: real)"
proof -
  have "sorted (map f (c # rest))"
    using assms(1) sorted_sort_key [of f xs] by (simp add: toSorted_key)
  moreover have "y \<in> set (c # rest)"
    using assms set_toSorted [of "\<lambda>a b. f a - f b" xs] by simp
  ultimately show ?thesis by auto
qed

lemma scoreModels_all:
  "\<forall>m \<in> set ms. modelProfiles_get (ref_model m) \<noteq> None \<Longrightarrow>
     map scored_model (scoreModels ms criteria) = ms"
  by (induction ms) (auto simp: Let_def split: option.splits)

lemma priceSum_modelPriceSum: "priceSum sm = modelPriceSum (scored_model sm)"
  by (simp add: priceSum_def modelPriceSum_def)

lemma selectOptimalModel_nonempty:
  assumes "toSorted (\<lambda>a b. score b - score a)
             (scoreModels (getAvailableModels config criteria) criteria) = xs"
    and "xs \<noteq> []"
  shows "selectOptimalModel config criteria = applyBudgetConstraints xs criteria"
  using assms by (simp add: selectOptimalModel_def Let_def)

lemma applyBudgetConstraints_fallback:
  assumes "budgetRemaining criteria = Some b" "b \<noteq> 0"
    and "filter (affordable b) xs = []"
    and "list_all hasProfile xs"
    and "toSorted (\<lambda>a b. priceSum a - priceSum b) xs = c # rest"
  shows "applyBudgetConstraints xs criteria = Inr (scored_model c)"
  unfolding applyBudgetConstraints_def using assms by (simp add: truthy_def)



text \<open>
  The fallback for a budget other than \<open>0\<close>: when the remaining budget is below the
  reference-request estimate of every available model, \<open>selectOptimalModel\<close> returns an
  available model whose price sum is least among the available models.
\<close>

theorem selectOptimalModel_budget_fallback:
  assumes b: "budgetRemaining criteria = Some b" "b \<noteq> 0"
    and ne: "getAvailableModels config criteria \<noteq> []"
    and exp: "\<forall>m \<in> set (getAvailableModels config criteria).
                b < getModelCostEstimate (ref_model m) 1000 500"
  shows "\<exists>m. selectOptimalModel config criteria = Inr m
           \<and> m \<in> set (getAvailableModels config criteria)
           \<and> (\<forall>m' \<in> set (getAvailableModels config criteria).
                 modelPriceSum m \<le> modelPriceSum m')"
proof -
  define avail where "avail = getAvailableModels config criteria"
  define scored where "scored = scoreModels avail criteria"
  define ranked where "ranked = toSorted (\<lambda>a b. score b - score a) scored"
  have prof: "\<forall>m \<in> set avail. modelProfiles_get (ref_model m) \<noteq> None"
  proof
    fix m assume "m \<in> set avail"
    then obtain p where "modelProfiles_get (ref_model m) = Some p"
      unfolding avail_def using available_profile by blast
    then show "modelProfiles_get (ref_model m) \<noteq> None" by simp
  qed
  from prof have models: "map scored_model scored = avail"
    unfolding scored_def by (rule scoreModels_all)
  have ranked_set: "set ranked = set scored" unfolding ranked_def by (rule set_toSorted)
  have into: "scored_model sm \<in> set avail" if "sm \<in> set ranked" for sm
  proof -
    from that ranked_set have "scored_model sm \<in> set (map scored_model scored)" by simp
    then show ?thesis by (simp only: models)
  qed
  have onto: "\<exists>sm. sm \<in> set ranked \<and> scored_model sm = m" if "m \<in> set avail" for m
  proof -
    from that have "m \<in> set (map scored_model scored)" by (simp only: models)
    then show ?thesis unfolding ranked_set by auto
  qed
  have "scored \<noteq> []"
  proof
    assume "scored = []"
    with models have "avail = []" by simp
    with ne show False by (simp add: avail_def)
  qed
  then have nonempty: "ranked \<noteq> []" unfolding ranked_def by (simp add: toSorted_Nil_iff)
  have all_prof: "list_all hasProfile ranked"
    unfolding list_all_iff hasProfile_def
  proof
    fix sm assume "sm \<in> set ranked"
    then have "scored_model sm \<in> set avail" by (rule into)
    with prof show "modelProfiles_get (ref_model (scored_model sm)) \<noteq> None" by (rule bspec)
  qed
  have "\<not> affordable b sm" if "sm \<in> set ranked" for sm
  proof -
    from that have "scored_model sm \<in> set avail" by (rule into)
    with exp have "b < getModelCostEstimate (ref_model (scored_model sm)) 1000 500"
      unfolding avail_def by (rule bspec)
    then show ?thesis by (simp add: affordable_def split: option.splits)
  qed
  then have none: "filter (affordable b) ranked = []" by (simp add: filter_empty_conv)
  obtain c rest where srt: "toSorted (\<lambda>a b. priceSum a - priceSum b) ranked = c # rest"
    using nonempty toSorted_Nil_iff [of "\<lambda>a b. priceSum a - priceSum b" ranked]
    by (cases "toSorted (\<lambda>a b. priceSum a - priceSum b) ranked") simp_all
  have "toSorted (\<lambda>a b. score b - score a)
             (scoreModels (getAvailableModels config criteria) criteria) = ranked"
    by (simp only: ranked_def scored_def avail_def)
  then have "selectOptimalModel config criteria = applyBudgetConstraints ranked criteria"
    using nonempty by (rule selectOptimalModel_nonempty)
  also have "\<dots> = Inr (scored_model c)"
    using b none all_prof srt by (rule applyBudgetConstraints_fallback)
  finally have sel: "selectOptimalModel config criteria = Inr (scored_model c)" .
  have "c \<in> set (c # rest)" by simp
  then have "c \<in> set ranked"
    using set_toSorted [of "\<lambda>a b. priceSum a - priceSum b" ranked] by (simp only: srt)
  then have mem: "scored_model c \<in> set avail" by (rule into)
  have least: "modelPriceSum (scored_model c) \<le> modelPriceSum m'" if "m' \<in> set avail" for m'
  proof -
    from that obtain sm where sm: "sm \<in> set ranked" "scored_model sm = m'"
      using onto by blast
    from srt sm(1) have "priceSum c \<le> priceSum sm" by (rule toSorted_key_head)
    with sm(2) show ?thesis by (simp add: priceSum_modelPriceSum)
  qed
  from sel mem least show ?thesis unfolding avail_def by blast
qed



theorem selectOptimalModel_budget_fallback_witness:
  "selectOptimalModel exampleConfig tinyBudgetCriteria
     = Inr \<lparr>ref_provider = ''openai'', ref_model = ''gpt-4o-mini''\<rparr>
   \<and> modelPriceSum \<lparr>ref_provider = ''openai'', ref_model = ''gpt-4o-mini''\<rparr>
        \<le> modelPriceSum \<lparr>ref_provider = ''openai'', ref_model = ''gpt-4o''\<rparr>"
proof -
  have av: "getAvailableModels exampleConfig tinyBudgetCriteria
       = [\<lparr>ref_provider = ''openai'', ref_model = ''gpt-4o''\<rparr>,
          \<lparr>ref_provider = ''openai'', ref_model = ''gpt-4o-mini''\<rparr>]"
    by code_simp
  have b: "budgetRemaining tinyBudgetCriteria = Some (1 / 1000000)" "(1 / 1000000 :: real) \<noteq> 0"
    by (simp_all add: tinyBudgetCriteria_def)
  have e1: "getModelCostEstimate ''gpt-4o'' 1000 500 = 125 / 10000" by code_simp
  have e2: "getModelCostEstimate ''gpt-4o-mini'' 1000 500 = 45 / 100000" by code_simp
  have exp: "\<forall>m \<in> set (getAvailableModels exampleConfig tinyBudgetCriteria).
       1 / 1000000 < getModelCostEstimate (ref_model m) 1000 500"
    by (simp add: av e1 e2)
  have s: "selectOptimalModel exampleConfig tinyBudgetCriteria
     = Inr \<lparr>ref_provider = ''openai'', ref_model = ''gpt-4o-mini''\<rparr>"
    by code_simp
  from selectOptimalModel_budget_fallback [OF b _ exp] av s show ?thesis by auto
qed

section \<open>UsageTracker\<close>

subsection \<open>Aggregate conservation\<close>



















subsection \<open>Budget alert thresholds\<close>

lemma foldl_cost: "foldl (\<lambda>total r. total + record_cost r) acc records
     = acc + sum_list (map record_cost records)"
  by (induction records arbitrary: acc) simp_all

lemma checkBudget_spent: "spent (checkBudget toFixed records period b) = matchingSpend records"
  by (simp add: checkBudget_def Let_def foldl_cost matchingSpend_def)



section \<open>ResponseCache\<close>

subsection \<open>Keys written and keys read\<close>

lemma hexDigit_hex: "hexDigit n \<in> set ''0123456789abcdef''"
  unfolding hexDigit_def by (rule nth_mem) simp

lemma hexEncode_hex: "set (hexEncode bytes) \<subseteq> set ''0123456789abcdef''"
  unfolding hexEncode_def using hexDigit_hex by auto

lemma hexEncode_not_k1: "hexEncode bytes \<noteq> ''k1''"
proof
  assume "hexEncode bytes = ''k1''"
  then have "CHR ''k'' \<in> set (hexEncode bytes)" by simp
  with hexEncode_hex have "CHR ''k'' \<in> set ''0123456789abcdef''" by blast
  then show False by simp
qed

lemma generateCacheKey_not_k1: "generateCacheKey digest cfg prompt temperature maxTokens \<noteq> ''k1''"
  by (simp add: generateCacheKey_def Let_def hexEncode_not_k1)

lemma new_default:
  "ResponseCache_new noOverrides Missing req
     = \<lparr>cache_config = defaultCacheConfig, memoryCache = [], storageNode = Missing,
        requireDefined = req\<rparr>"
  by (simp add: ResponseCache_new_def mergeConfig_def noOverrides_def Let_def
      defaultCacheConfig_def)

text \<open>
  Claim C1, at the call of the specification:
  \<open>set({key: "k1", response: "R", usage: {input: 100, output: 50}, cost: 0.01})\<close> on a new cache
  with the default configuration, then \<open>get("k1")\<close>. The claim asks for the cached response.
  \<open>set\<close> stores the entry under \<open>generateCacheKey\<close> of its key, a string of hexadecimal digits
  whatever the digest; \<open>get\<close> looks its key up as it is. So \<open>get("k1")\<close> is a miss, and it
  leaves the cache as it was: a second \<open>get("k1")\<close> is a miss as well.
\<close>

theorem set_then_get_same_key_misses:
  "\<exists>stored. ResponseCache_set digest 0 k1Params (ResponseCache_new noOverrides Missing True)
        = Inr stored
      \<and> memoryCache stored
          = [(generateCacheKey digest defaultCacheConfig ''k1'' None None,
              \<lparr>response = ''R'', usage = exampleUsage, cost = 1 / 100, timestamp = 0,
                ttl = 3600, hitCount = 0\<rparr>)]
      \<and> generateCacheKey digest defaultCacheConfig ''k1'' None None \<noteq> ''k1''
      \<and> ResponseCache_get 1 ''k1'' stored = Inr (None, stored)"
proof -
  define stored where "stored =
    \<lparr>cache_config = defaultCacheConfig,
     memoryCache = [(generateCacheKey digest defaultCacheConfig ''k1'' None None,
              \<lparr>response = ''R'', usage = exampleUsage, cost = 1 / 100, timestamp = 0,
                ttl = 3600, hitCount = 0\<rparr>)],
     storageNode = Missing, requireDefined = True\<rparr>"
  have s: "ResponseCache_set digest 0 k1Params (ResponseCache_new noOverrides Missing True)
        = Inr stored"
    by (simp add: new_default ResponseCache_set_def Let_def k1Params_def truthy_def stored_def
        defaultCacheConfig_def)
  have g: "ResponseCache_get 1 ''k1'' stored = Inr (None, stored)"
    using generateCacheKey_not_k1 [of digest defaultCacheConfig "''k1''" None None]
    by (simp add: ResponseCache_get_def Let_def stored_def defaultCacheConfig_def)
  from s g generateCacheKey_not_k1 show ?thesis by (auto simp: stored_def)
qed

subsection \<open>Expiry\<close>

lemma storedEntry_memory:
  "storage_type (cache_config c) = Memory \<Longrightarrow> storedEntry c k = map_of (memoryCache c) k"
  by (simp add: storedEntry_def)

lemma storedEntry_disk:
  "storage_type (cache_config c) \<noteq> Memory \<Longrightarrow>
     storedEntry c k = fst (getDiskCache (storageNode c) k)"
  by (simp add: storedEntry_def)

lemma getDiskCache_Some:
  assumes "fst (getDiskCache node k) = Some e"
  shows "\<exists>files file. node = Directory files \<and> map_of files (k @ ''.json'') = Some file
           \<and> content file = Stored e \<and> snd (getDiskCache node k) = node"
  using assms
  by (auto simp: getDiskCache_def Let_def split: StorageNode.splits option.splits
      FileContent.splits)

lemma getDiskCache_Directory:
  "fst (getDiskCache (Directory files) k)
     = (case map_of files (k @ ''.json'') of
          None \<Rightarrow> None
        | Some file \<Rightarrow> (case content file of Stored e \<Rightarrow> Some e | Corrupted \<Rightarrow> None))"
  by (simp add: getDiskCache_def Let_def split: option.splits FileContent.splits)







lemma get_fresh:
  assumes "enabled (cache_config c)" and "storedEntry c k = Some e"
    and "real_of_int (now - timestamp e) \<le> ttl e * 1000"
  shows "\<exists>c'. ResponseCache_get now k c = Inr (Some (e\<lparr>hitCount := hitCount e + 1\<rparr>), c')
           \<and> storedEntry c' k = Some (e\<lparr>hitCount := hitCount e + 1\<rparr>)"
proof (cases "storage_type (cache_config c) = Memory")
  case True
  with assms show ?thesis
    by (simp add: ResponseCache_get_def storedEntry_def Let_def AList.update_conv')
next
  case False
  with assms(2) have r: "fst (getDiskCache (storageNode c) k) = Some e"
    by (simp add: storedEntry_def)
  then obtain files where d: "storageNode c = Directory files"
    and s: "snd (getDiskCache (storageNode c) k) = storageNode c"
    using getDiskCache_Some by blast
  from r s d assms(1,3) False show ?thesis
    by (simp add: ResponseCache_get_def Let_def setDiskCache_def storedEntry_def
        getDiskCache_Directory AList.update_conv')
qed



subsection \<open>The round trip through the hashed key\<close>

lemma evictOldest_config:
  "storage_type (cache_config c) = Memory \<Longrightarrow> cache_config (evictOldest c) = cache_config c"
  by (simp add: evictOldest_def split: list.splits)

lemma get_config:
  "ResponseCache_get now k c = Inr (r, c') \<Longrightarrow> cache_config c' = cache_config c"
  by (auto simp: ResponseCache_get_def Let_def deleteEntry_def
      split: if_splits option.splits sum.splits)

text \<open>
  The round trip that does hold, for the memory backend: after \<open>set\<close>, two reads within the
  time to live under the key \<open>generateCacheKey\<close> makes of the key given to \<open>set\<close> return the
  response, with \<open>hitCount\<close> \<open>1\<close> and then \<open>2\<close>.
\<close>

theorem set_then_get_hashed_key:
  assumes "enabled (cache_config c)" and "storage_type (cache_config c) = Memory"
    and "ResponseCache_set digest t0 p c = Inr c1"
    and "real_of_int (t1 - t0)
           \<le> (if truthy (param_ttl p) then the (param_ttl p) else ttl_default (cache_config c))
               * 1000"
    and "real_of_int (t2 - t0)
           \<le> (if truthy (param_ttl p) then the (param_ttl p) else ttl_default (cache_config c))
               * 1000"
  shows "\<exists>e1 c2 e2 c3.
           ResponseCache_get t1 (generateCacheKey digest (cache_config c) (param_key p)
               (param_temperature p) (param_maxTokens p)) c1 = Inr (Some e1, c2)
         \<and> response e1 = param_response p \<and> hitCount e1 = 1
         \<and> ResponseCache_get t2 (generateCacheKey digest (cache_config c) (param_key p)
               (param_temperature p) (param_maxTokens p)) c2 = Inr (Some e2, c3)
         \<and> response e2 = param_response p \<and> hitCount e2 = 2"
proof -
  define k where "k = generateCacheKey digest (cache_config c) (param_key p)
                       (param_temperature p) (param_maxTokens p)"
  define entry where "entry =
    \<lparr>response = param_response p, usage = param_usage p, cost = param_cost p,
     timestamp = t0,
     ttl = (if truthy (param_ttl p) then the (param_ttl p) else ttl_default (cache_config c)),
     hitCount = 0\<rparr>"
  define c0 where "c0 = (if int (length (memoryCache c)) \<ge> storage_maxSize (cache_config c)
                          then evictOldest c else c)"
  have cfg0: "cache_config c0 = cache_config c"
    using assms(2) by (simp add: c0_def evictOldest_config)
  from assms(1-3) have c1: "c1 = c0\<lparr>memoryCache := AList.update k entry (memoryCache c0)\<rparr>"
    by (simp add: ResponseCache_set_def Let_def k_def entry_def c0_def)
  have cfg1: "cache_config c1 = cache_config c" by (simp add: c1 cfg0)
  have st1: "storedEntry c1 k = Some entry"
    using assms(2) by (simp add: c1 cfg0 storedEntry_def AList.update_conv')
  have en1: "enabled (cache_config c1)" using assms(1) by (simp add: cfg1)
  have fresh1: "real_of_int (t1 - timestamp entry) \<le> ttl entry * 1000"
    using assms(4) by (simp add: entry_def)
  from get_fresh [OF en1 st1 fresh1] obtain c2 where
    g1: "ResponseCache_get t1 k c1 = Inr (Some (entry\<lparr>hitCount := hitCount entry + 1\<rparr>), c2)"
    and st2: "storedEntry c2 k = Some (entry\<lparr>hitCount := hitCount entry + 1\<rparr>)"
    by blast
  define e1 where "e1 = entry\<lparr>hitCount := hitCount entry + 1\<rparr>"
  have en2: "enabled (cache_config c2)"
    using get_config [OF g1] en1 by simp
  have fresh2: "real_of_int (t2 - timestamp e1) \<le> ttl e1 * 1000"
    using assms(5) by (simp add: e1_def entry_def)
  from get_fresh [OF en2 st2 [folded e1_def] fresh2] obtain c3 where
    g2: "ResponseCache_get t2 k c2 = Inr (Some (e1\<lparr>hitCount := hitCount e1 + 1\<rparr>), c3)"
    by blast
  have "response e1 = param_response p" "hitCount e1 = 1"
    "response (e1\<lparr>hitCount := hitCount e1 + 1\<rparr>) = param_response p"
    "hitCount (e1\<lparr>hitCount := hitCount e1 + 1\<rparr>) = 2"
    by (simp_all add: e1_def entry_def)
  with g1 [folded e1_def] g2 show ?thesis unfolding k_def by blast
qed

theorem set_then_get_hashed_key_witness:
  "ResponseCache_set plainDigest 0 k1Params (ResponseCache_new noOverrides Missing True)
       = Inr storedByPlain
   \<and> generateCacheKey plainDigest defaultCacheConfig ''k1'' None None = ''6b31''
   \<and> (\<exists>e1 c2 e2 c3.
           ResponseCache_get 1000 ''6b31'' storedByPlain = Inr (Some e1, c2)
         \<and> response e1 = ''R'' \<and> hitCount e1 = 1
         \<and> ResponseCache_get 2000 ''6b31'' c2 = Inr (Some e2, c3)
         \<and> response e2 = ''R'' \<and> hitCount e2 = 2)"
proof -
  have a: "enabled (cache_config (ResponseCache_new noOverrides Missing True))"
    "storage_type (cache_config (ResponseCache_new noOverrides Missing True)) = Memory"
    by (simp_all add: new_default defaultCacheConfig_def)
  have s: "ResponseCache_set plainDigest 0 k1Params (ResponseCache_new noOverrides Missing True)
       = Inr storedByPlain"
    by code_simp
  have k: "generateCacheKey plainDigest defaultCacheConfig ''k1'' None None = ''6b31''"
    by code_simp
  have cfg: "cache_config (ResponseCache_new noOverrides Missing True) = defaultCacheConfig"
    by (simp add: new_default)
  have m: "ttl_default defaultCacheConfig = 3600" "param_ttl k1Params = None"
    "param_key k1Params = ''k1''" "param_temperature k1Params = None"
    "param_maxTokens k1Params = None" "param_response k1Params = ''R''"
    by (simp_all add: defaultCacheConfig_def k1Params_def)
  have t: "real_of_int (1000 - 0)
      \<le> (if truthy (param_ttl k1Params) then the (param_ttl k1Params)
          else ttl_default (cache_config (ResponseCache_new noOverrides Missing True))) * 1000"
    "real_of_int (2000 - 0)
      \<le> (if truthy (param_ttl k1Params) then the (param_ttl k1Params)
          else ttl_default (cache_config (ResponseCache_new noOverrides Missing True))) * 1000"
    by (simp_all add: cfg m truthy_def)
  from set_then_get_hashed_key [OF a s t] have
    "\<exists>e1 c2 e2 c3.
           ResponseCache_get 1000 ''6b31'' storedByPlain = Inr (Some e1, c2)
         \<and> response e1 = ''R'' \<and> hitCount e1 = 1
         \<and> ResponseCache_get 2000 ''6b31'' c2 = Inr (Some e2, c3)
         \<and> response e2 = ''R'' \<and> hitCount e2 = 2"
    by (simp add: cfg m k)
  with s k show ?thesis by blast
qed

subsection \<open>The default time to live\<close>







subsection \<open>Clearing\<close>

lemma clear_directory:
  assumes "storage_type (cache_config c) = Disk" and "storageNode c = Directory files"
  shows "ResponseCache_clear c = Inl EISDIR"
  using assms by (simp add: ResponseCache_clear_def)

text \<open>
  Claim C9, for the disk backend. The cache directory holds one entry, which \<open>getStats\<close>
  counts. \<open>clear\<close> does not complete: \<open>readFileSync\<close> of the directory throws \<open>EISDIR\<close>, and no
  file is deleted.
\<close>

theorem clear_disk_throws:
  "storage_type (cache_config diskWithK1) = Disk
   \<and> storedEntry diskWithK1 ''k1'' = Some shortLived
   \<and> stats_size (fst (getStats diskWithK1)) = 1
   \<and> ResponseCache_clear diskWithK1 = Inl EISDIR"
  by code_simp

text \<open>
  For the memory backend \<open>clear\<close> completes, empties the \<open>Map\<close>, and \<open>getStats\<close> then reports
  the size \<open>0\<close>.
\<close>

theorem clear_memory:
  assumes "storage_type (cache_config c) = Memory"
  shows "\<exists>c'. ResponseCache_clear c = Inr c' \<and> memoryCache c' = []
           \<and> stats_size (fst (getStats c')) = 0"
  using assms by (simp add: ResponseCache_clear_def getStats_def Let_def)

theorem clear_memory_witness:
  "storage_type (cache_config memoryWithK1) = Memory
   \<and> stats_size (fst (getStats memoryWithK1)) = 1
   \<and> (\<exists>c'. ResponseCache_clear memoryWithK1 = Inr c' \<and> memoryCache c' = []
           \<and> stats_size (fst (getStats c')) = 0)"
proof -
  have m: "storage_type (cache_config memoryWithK1) = Memory" by code_simp
  have s: "stats_size (fst (getStats memoryWithK1)) = 1" by code_simp
  from clear_memory [OF m] m s show ?thesis by blast
qed

end
